theory Spec2Isabelle
  imports Complex_Main "HOL-Library.Sublist" "HOL-Library.Product_Lexorder"
begin

section \<open>Errors and floating-point values\<close>

text \<open>
  The notebook \<^verbatim>\<open>models/hybrid.ipynb\<close> raises only the lookup errors of Python, numpy and
  pandas, and Python's division error. They are values of the type \<open>error\<close>; a function that
  can raise returns \<open>error + 'a\<close> with \<open>Inl\<close> for the exception.
\<close>

datatype error = IndexError | KeyError | ZeroDivisionError

text \<open>
  Scores are 64-bit floats in the notebook. They are idealised here as real numbers (no rounding,
  no overflow, no signed zero), extended by the three special values that numpy's division
  produces without raising: \<open>x / 0\<close> is \<open>NaN\<close> for \<open>x = 0\<close> and an infinity otherwise.
  pandas treats \<open>NaN\<close> as a missing entry.
\<close>

datatype flt = Fin real | PInf | NInf | NaN

fun fmul :: "flt \<Rightarrow> real \<Rightarrow> flt" where
  "fmul (Fin a) w = Fin (a * w)"
| "fmul NaN w = NaN"
| "fmul PInf w = (if 0 < w then PInf else if w < 0 then NInf else NaN)"
| "fmul NInf w = (if 0 < w then NInf else if w < 0 then PInf else NaN)"

fun fadd :: "flt \<Rightarrow> flt \<Rightarrow> flt" where
  "fadd (Fin a) (Fin b) = Fin (a + b)"
| "fadd NaN y = NaN"
| "fadd x NaN = NaN"
| "fadd PInf NInf = NaN"
| "fadd NInf PInf = NaN"
| "fadd PInf y = PInf"
| "fadd NInf y = NInf"
| "fadd x PInf = PInf"
| "fadd x NInf = NInf"

fun fdiv :: "flt \<Rightarrow> flt \<Rightarrow> flt" where
  "fdiv (Fin a) (Fin b) =
     (if b \<noteq> 0 then Fin (a / b) else if a = 0 then NaN else if 0 < a then PInf else NInf)"
| "fdiv NaN y = NaN"
| "fdiv x NaN = NaN"
| "fdiv (Fin a) y = Fin 0"
| "fdiv PInf (Fin b) = (if 0 \<le> b then PInf else NInf)"
| "fdiv NInf (Fin b) = (if 0 \<le> b then NInf else PInf)"
| "fdiv x y = NaN"

text \<open>
  The key under which a descending sort orders values: larger values first, \<open>NaN\<close> last
  (pandas' \<^verbatim>\<open>na_position='last'\<close>).
\<close>

fun desc_key :: "flt \<Rightarrow> nat \<times> real" where
  "desc_key PInf = (0, 0)"
| "desc_key (Fin a) = (1, - a)"
| "desc_key NInf = (2, 0)"
| "desc_key NaN = (3, 0)"

definition fmax :: "flt \<Rightarrow> flt \<Rightarrow> flt" where
  "fmax a b = (if desc_key a \<le> desc_key b then a else b)"

section \<open>Tables of the notebook\<close>

text \<open>
  A row of the \<^verbatim>\<open>interactions\<close> frame after the cleaning cell (the other columns are
  dropped there), and a row of the \<^verbatim>\<open>categories\<close> frame. \<^verbatim>\<open>dropna\<close> and
  \<^verbatim>\<open>drop_duplicates\<close> keep the index label each row had in the CSV file, so a row of
  \<^verbatim>\<open>categories\<close> carries its label.
\<close>

record interaction =
  user_id :: int
  video_id :: int
  watch_ratio :: real

record category =
  cat_label :: nat
  cat_video_id :: int
  feat :: "nat list"

text \<open>
  A pandas Series is a list of (label, value) pairs in row order. The labels of the Series
  built here are video ids.
\<close>

type_synonym series = "(int \<times> flt) list"

text \<open>
  \<^verbatim>\<open>user_item_matrix\<close> is the pivot table of the interactions: row labels (user ids),
  column labels (video ids) and the cell of each pair of labels.
\<close>

record frame =
  f_index :: "int list"
  f_columns :: "int list"
  f_at :: "int \<Rightarrow> int \<Rightarrow> real"

text \<open>The module-level variables that the functions of the notebook read.\<close>

record ctx =
  interactions :: "interaction list"
  categories :: "category list"
  user_item_matrix :: frame
  user_similarity :: "real list list"
  content_based_cosine_sim :: "real list list"

subsection \<open>How the notebook builds them\<close>

text \<open>
  \<^verbatim>\<open>
  user_item_matrix = interactions.pivot_table(
      index="user_id", columns="video_id", values="watch_ratio",
      aggfunc="max", fill_value=0)
  user_similarity = cosine_similarity(user_item_matrix)
  content_based_cosine_sim = linear_kernel(tfidf_matrix, tfidf_matrix)
  \<close>
  \<^verbatim>\<open>cosine_similarity\<close> and \<^verbatim>\<open>linear_kernel\<close> are scikit-learn's: the first scales
  every row to length 1 (a zero row is left as it is) and then takes all dot products of rows, the
  second takes the dot products directly.
\<close>

definition cell :: "interaction list \<Rightarrow> int \<Rightarrow> int \<Rightarrow> real" where
  "cell rows u v =
     (case filter (\<lambda>r. user_id r = u \<and> video_id r = v) rows of
        [] \<Rightarrow> 0
      | r # rs \<Rightarrow> fold (\<lambda>x m. max (watch_ratio x) m) rs (watch_ratio r))"

definition pivot_table :: "interaction list \<Rightarrow> frame" where
  "pivot_table rows =
     \<lparr>f_index = sort (remdups (map user_id rows)),
      f_columns = sort (remdups (map video_id rows)),
      f_at = cell rows\<rparr>"

definition frame_values :: "frame \<Rightarrow> real list list" where
  "frame_values df = map (\<lambda>u. map (f_at df u) (f_columns df)) (f_index df)"

definition dot :: "real list \<Rightarrow> real list \<Rightarrow> real" where
  "dot x y = sum_list (map2 (*) x y)"

definition l2_normalize :: "real list \<Rightarrow> real list" where
  "l2_normalize x = (let n = sqrt (dot x x) in if n = 0 then x else map (\<lambda>v. v / n) x)"

definition linear_kernel :: "real list list \<Rightarrow> real list list \<Rightarrow> real list list" where
  "linear_kernel X Y = map (\<lambda>x. map (dot x) Y) X"

definition cosine_similarity :: "real list list \<Rightarrow> real list list" where
  "cosine_similarity X = (let Xn = map l2_normalize X in linear_kernel Xn Xn)"

section \<open>numpy and pandas operations\<close>

text \<open>
  \<^verbatim>\<open>a[i]\<close> on a numpy array: a negative index counts from the end, an index outside
  \<open>[-n, n)\<close> raises IndexError.
\<close>

definition np_row :: "'a list \<Rightarrow> int \<Rightarrow> error + 'a" where
  "np_row a i =
     (let n = int (length a)
      in if 0 \<le> i \<and> i < n then Inr (a ! nat i)
         else if - n \<le> i \<and> i < 0 then Inr (a ! nat (i + n))
         else Inl IndexError)"

text \<open>
  \<^verbatim>\<open>a.argsort()\<close>: the positions of \<open>a\<close> in ascending order of value. numpy's default
  sort and pandas' \<^verbatim>\<open>sort_values\<close> are not stable, so the source does not fix the order of
  equal values; the model fixes it as the order of first appearance (a stable sort), everywhere.
\<close>

definition argsort :: "real list \<Rightarrow> nat list" where
  "argsort a = map fst (sort_key snd (enumerate 0 a))"

text \<open>
  \<^verbatim>\<open>a[:-nb:-1]\<close>: from the last element backwards, stopping before position \<open>-nb\<close>.
  For \<open>nb \<ge> 1\<close> these are the last \<open>nb - 1\<close> elements, last first; for \<open>nb = 0\<close> the
  stop is position 0, so all elements but the first.
\<close>

definition slice_back :: "nat \<Rightarrow> 'a list \<Rightarrow> 'a list" where
  "slice_back nb a = (if nb = 0 then rev (drop 1 a) else take (nb - 1) (rev a))"

text \<open>
  \<^verbatim>\<open>df.loc[label]\<close> is the row of a label as a Series over the columns and raises KeyError
  for a label that is not in the index; \<^verbatim>\<open>df.loc[labels]\<close> raises KeyError if any of the
  labels is missing. \<^verbatim>\<open>.mean(axis=0)\<close> averages every column over the selected rows and
  is \<open>NaN\<close> when no row is selected.
\<close>

definition loc_row :: "frame \<Rightarrow> int \<Rightarrow> error + (int \<times> real) list" where
  "loc_row df l =
     (if l \<in> set (f_index df) then Inr (map (\<lambda>v. (v, f_at df l v)) (f_columns df))
      else Inl KeyError)"

definition loc_rows :: "frame \<Rightarrow> int list \<Rightarrow> error + int list" where
  "loc_rows df ls = (if set ls \<subseteq> set (f_index df) then Inr ls else Inl KeyError)"

definition mean_axis0 :: "frame \<Rightarrow> int list \<Rightarrow> series" where
  "mean_axis0 df ls =
     map (\<lambda>v. (v, if ls = [] then NaN
                  else Fin (sum_list (map (\<lambda>l. f_at df l v) ls) / real (length ls))))
       (f_columns df)"

text \<open>\<^verbatim>\<open>s.sort_values(ascending=False)\<close>, with \<open>NaN\<close> last.\<close>

definition sort_values_desc :: "series \<Rightarrow> series" where
  "sort_values_desc s = sort_key (\<lambda>p. desc_key (snd p)) s"

text \<open>
  \<^verbatim>\<open>a.add(b, fill_value=0)\<close>: the two Series are aligned on the union of their labels
  (sorted, unless both have the same index, which is then kept); where exactly one side has no
  number (the label is absent there, or its value is \<open>NaN\<close>) that side counts as 0, and where
  both sides have none the result is \<open>NaN\<close>. Labels are taken to be distinct within a Series.
\<close>

definition union_index :: "int list \<Rightarrow> int list \<Rightarrow> int list" where
  "union_index xs ys = (if xs = ys then xs else sort (remdups (xs @ ys)))"

definition aligned :: "series \<Rightarrow> int \<Rightarrow> flt" where
  "aligned s k = (case map_of s k of None \<Rightarrow> NaN | Some x \<Rightarrow> x)"

definition fill_add :: "flt \<Rightarrow> flt \<Rightarrow> flt" where
  "fill_add x y =
     (if x = NaN \<and> y = NaN then NaN
      else if x = NaN then fadd (Fin 0) y
      else if y = NaN then fadd x (Fin 0)
      else fadd x y)"

definition series_add :: "series \<Rightarrow> series \<Rightarrow> series" where
  "series_add a b =
     map (\<lambda>k. (k, fill_add (aligned a k) (aligned b k))) (union_index (map fst a) (map fst b))"

definition series_mul :: "series \<Rightarrow> real \<Rightarrow> series" where
  "series_mul s w = map (\<lambda>p. (fst p, fmul (snd p) w)) s"

text \<open>\<^verbatim>\<open>s.max()\<close> skips \<open>NaN\<close> and is \<open>NaN\<close> when no number is left.\<close>

definition series_max :: "series \<Rightarrow> flt" where
  "series_max s =
     (case filter (\<lambda>x. x \<noteq> NaN) (map snd s) of [] \<Rightarrow> NaN | x # xs \<Rightarrow> fold fmax xs x)"

text \<open>
  \<^verbatim>\<open>
  if not s.empty:
      s /= s.max()
  \<close>
\<close>

definition normalize_scores :: "series \<Rightarrow> series" where
  "normalize_scores s =
     (if s = [] then s else map (\<lambda>p. (fst p, fdiv (snd p) (series_max s))) s)"

text \<open>\<^verbatim>\<open>s.drop(labels=ls, errors='ignore')\<close>.\<close>

definition drop_labels :: "int list \<Rightarrow> series \<Rightarrow> series" where
  "drop_labels ls s = filter (\<lambda>p. fst p \<notin> set ls) s"

text \<open>
  \<^verbatim>\<open>s.iloc[positions]\<close> on the \<^verbatim>\<open>video_id\<close> column: IndexError for a position outside
  the frame.
\<close>

fun iloc :: "'a list \<Rightarrow> nat list \<Rightarrow> error + 'a list" where
  "iloc col [] = Inr []"
| "iloc col (i # is) =
     (if i < length col
      then (case iloc col is of Inl e \<Rightarrow> Inl e | Inr vs \<Rightarrow> Inr (col ! i # vs))
      else Inl IndexError)"

section \<open>Collaborative filtering\<close>

text \<open>
  \<^verbatim>\<open>
  def recommend_videos_by_users(user_id, nb_top_similar=10, res_length=10):
      similar_users = user_similarity[user_id].argsort()[:-nb_top_similar:-1]
      recommended_items = user_item_matrix.loc[similar_users].mean(axis=0).sort_values(ascending=False)
      items_user_has_watched = user_item_matrix.loc[user_id][user_item_matrix.loc[user_id] != 0].index
      recommended_items = recommended_items[~recommended_items.index.isin(items_user_has_watched)]
      return recommended_items.head(res_length)
  \<close>
  \<open>similar_users\<close> holds positions of the similarity matrix, which \<^verbatim>\<open>.loc\<close> then reads as
  user ids. The counts \<open>nb_top_similar\<close> and \<open>res_length\<close> are natural numbers.
\<close>

definition similar_users :: "ctx \<Rightarrow> int \<Rightarrow> nat \<Rightarrow> error + int list" where
  "similar_users c uid nb_top_similar =
     (case np_row (user_similarity c) uid of
        Inl e \<Rightarrow> Inl e
      | Inr row \<Rightarrow> Inr (map int (slice_back nb_top_similar (argsort row))))"

definition items_user_has_watched :: "(int \<times> real) list \<Rightarrow> int list" where
  "items_user_has_watched row = map fst (filter (\<lambda>p. snd p \<noteq> 0) row)"

definition recommend_videos_by_users :: "ctx \<Rightarrow> int \<Rightarrow> nat \<Rightarrow> nat \<Rightarrow> error + series" where
  "recommend_videos_by_users c uid nb_top_similar res_length =
     (case similar_users c uid nb_top_similar of
        Inl e \<Rightarrow> Inl e
      | Inr su \<Rightarrow>
         (case loc_rows (user_item_matrix c) su of
            Inl e \<Rightarrow> Inl e
          | Inr ls \<Rightarrow>
             (case loc_row (user_item_matrix c) uid of
                Inl e \<Rightarrow> Inl e
              | Inr row \<Rightarrow>
                 Inr (take res_length
                        (filter (\<lambda>p. fst p \<notin> set (items_user_has_watched row))
                           (sort_values_desc (mean_axis0 (user_item_matrix c) ls)))))))"

section \<open>Content-based filtering\<close>

text \<open>
  \<^verbatim>\<open>
  def recommend_similar_videos(video_id, res_length=20):
      idx = categories[categories['video_id'] == video_id].index[0]
      sim_scores = list(enumerate(content_based_cosine_sim[idx]))
      sim_scores = sorted(sim_scores, key=lambda x: x[1], reverse=True)[1:res_length+1]
      movie_indices = [i[0] for i in sim_scores]
      scores = [i[1] for i in sim_scores]
      video_ids = categories["video_id"].iloc[movie_indices].reset_index(drop=True)
      return pd.Series(scores, index=video_ids, name="similarity")
  \<close>
  \<^verbatim>\<open>.index[0]\<close> raises IndexError when no row has the video id. Python's \<^verbatim>\<open>sorted\<close> is
  stable, also with \<^verbatim>\<open>reverse=True\<close>. \<open>sim_scores\<close> is the list of (position, score) pairs
  that the function keeps; the result pairs each score with the video id at its position.
\<close>

definition sim_scores :: "real list \<Rightarrow> nat \<Rightarrow> (nat \<times> real) list" where
  "sim_scores row res_length =
     take res_length (drop 1 (sort_key (\<lambda>x. - snd x) (enumerate 0 row)))"

definition recommend_similar_videos :: "ctx \<Rightarrow> int \<Rightarrow> nat \<Rightarrow> error + (int \<times> real) list" where
  "recommend_similar_videos c vid res_length =
     (case filter (\<lambda>r. cat_video_id r = vid) (categories c) of
        [] \<Rightarrow> Inl IndexError
      | r # _ \<Rightarrow>
         (case np_row (content_based_cosine_sim c) (int (cat_label r)) of
            Inl e \<Rightarrow> Inl e
          | Inr row \<Rightarrow>
             (case iloc (map cat_video_id (categories c)) (map fst (sim_scores row res_length)) of
                Inl e \<Rightarrow> Inl e
              | Inr video_ids \<Rightarrow> Inr (zip video_ids (map snd (sim_scores row res_length))))))"

section \<open>Hybrid filtering\<close>

text \<open>
  \<^verbatim>\<open>
  def get_most_watched_videos_by_user_id(df, user_id, head_count=5):
      return df[df["user_id"] == user_id].sort_values(by="watch_ratio", ascending=False).head(head_count)
  \<close>
\<close>

definition get_most_watched_videos_by_user_id ::
  "interaction list \<Rightarrow> int \<Rightarrow> nat \<Rightarrow> interaction list" where
  "get_most_watched_videos_by_user_id df uid head_count =
     take head_count (sort_key (\<lambda>r. - watch_ratio r) (filter (\<lambda>r. user_id r = uid) df))"

text \<open>
  \<^verbatim>\<open>
  def recommmend_videos_for_user(user_id, content_weight=0.3, res_length=10):
      collab_scores = recommend_videos_by_users(user_id, nb_top_similar=10, res_length=50)
      user_history = get_most_watched_videos_by_user_id(interactions, user_id, 20)["video_id"].tolist()
      content_scores = pd.Series(dtype=float)
      for video_id in user_history:
          similar_videos = recommend_similar_videos(video_id, res_length=10)
          content_scores = content_scores.add(similar_videos, fill_value=0)
      if not content_scores.empty:
          content_scores /= content_scores.max()
      if not collab_scores.empty:
          collab_scores /= collab_scores.max()
      combined_scores = content_scores.mul(content_weight).add(
          collab_scores.mul(1 - content_weight), fill_value=0)
      combined_scores = combined_scores.drop(labels=user_history, errors='ignore')
      return combined_scores.sort_values(ascending=False).head(res_length)
  \<close>
  The loop is \<open>content_loop\<close>, with the Series built so far as its accumulator;
  \<open>combined_scores\<close> is the blend before the history is dropped.
\<close>

definition user_history :: "ctx \<Rightarrow> int \<Rightarrow> int list" where
  "user_history c uid = map video_id (get_most_watched_videos_by_user_id (interactions c) uid 20)"

fun content_loop :: "ctx \<Rightarrow> int list \<Rightarrow> series \<Rightarrow> error + series" where
  "content_loop c [] content_scores = Inr content_scores"
| "content_loop c (vid # vids) content_scores =
     (case recommend_similar_videos c vid 10 of
        Inl e \<Rightarrow> Inl e
      | Inr similar_videos \<Rightarrow>
         content_loop c vids
           (series_add content_scores (map (\<lambda>p. (fst p, Fin (snd p))) similar_videos)))"

definition combined_scores :: "series \<Rightarrow> series \<Rightarrow> real \<Rightarrow> series" where
  "combined_scores content_scores collab_scores content_weight =
     series_add (series_mul (normalize_scores content_scores) content_weight)
       (series_mul (normalize_scores collab_scores) (1 - content_weight))"

definition recommmend_videos_for_user :: "ctx \<Rightarrow> int \<Rightarrow> real \<Rightarrow> nat \<Rightarrow> error + series" where
  "recommmend_videos_for_user c uid content_weight res_length =
     (case recommend_videos_by_users c uid 10 50 of
        Inl e \<Rightarrow> Inl e
      | Inr collab_scores \<Rightarrow>
         (case content_loop c (user_history c uid) [] of
            Inl e \<Rightarrow> Inl e
          | Inr content_scores \<Rightarrow>
             Inr (take res_length
                    (sort_values_desc
                       (drop_labels (user_history c uid)
                          (combined_scores content_scores collab_scores content_weight))))))"

section \<open>Evaluation metrics\<close>

text \<open>
  \<^verbatim>\<open>
  def f1_score_at_k(precision, recall):
      if precision + recall == 0:
          return 0.0
      return 2 * (precision * recall) / (precision + recall)
  \<close>
  Python's \<^verbatim>\<open>/\<close> on floats raises ZeroDivisionError on a zero divisor; the numbers are
  taken as reals.
\<close>

definition py_truediv :: "real \<Rightarrow> real \<Rightarrow> error + real" where
  "py_truediv a b = (if b = 0 then Inl ZeroDivisionError else Inr (a / b))"

definition f1_score_at_k :: "real \<Rightarrow> real \<Rightarrow> error + real" where
  "f1_score_at_k precision recall =
     (if precision + recall = 0 then Inr 0
      else py_truediv (2 * (precision * recall)) (precision + recall))"

section \<open>Notions used in the statements\<close>

text \<open>
  A Series all of whose values are numbers, and one whose values are non-negative numbers.
\<close>

definition all_fin :: "series \<Rightarrow> bool" where
  "all_fin s = (\<forall>p\<in>set s. \<exists>x. snd p = Fin x)"

definition nonneg :: "series \<Rightarrow> bool" where
  "nonneg s = (\<forall>p\<in>set s. \<exists>x. snd p = Fin x \<and> 0 \<le> x)"

text \<open>
  The share of an item in a component: its score there divided by \<open>m\<close>, and 0 for an item
  that the component does not hold.
\<close>

definition part :: "series \<Rightarrow> real \<Rightarrow> int \<Rightarrow> real" where
  "part s m k = (case map_of s k of Some (Fin x) \<Rightarrow> x / m | _ \<Rightarrow> 0)"




text \<open>The videos with which a user has a recorded interaction.\<close>

definition history_of :: "ctx \<Rightarrow> int \<Rightarrow> int list" where
  "history_of c uid = map video_id (filter (\<lambda>r. user_id r = uid) (interactions c))"

section \<open>Example tables\<close>

text \<open>
  Three users. User 0 watched video 1; user 1 watched videos 1 and 2; user 2 watched videos
  1 and 3. The rows of the pivot table are \<open>(1, 0, 0)\<close>, \<open>(3, 4, 0)\<close> and \<open>(4, 0, 3)\<close>,
  whose cosines are \<open>3/5\<close>, \<open>4/5\<close> and \<open>12/25\<close>.
\<close>

definition three_videos :: "category list" where
  "three_videos =
     [\<lparr>cat_label = 0, cat_video_id = 1, feat = [1]\<rparr>,
      \<lparr>cat_label = 1, cat_video_id = 2, feat = [1, 2]\<rparr>,
      \<lparr>cat_label = 2, cat_video_id = 3, feat = [1, 3]\<rparr>]"

definition three_users_rows :: "interaction list" where
  "three_users_rows =
     [\<lparr>user_id = 0, video_id = 1, watch_ratio = 1\<rparr>,
      \<lparr>user_id = 1, video_id = 1, watch_ratio = 3\<rparr>,
      \<lparr>user_id = 1, video_id = 2, watch_ratio = 4\<rparr>,
      \<lparr>user_id = 2, video_id = 1, watch_ratio = 4\<rparr>,
      \<lparr>user_id = 2, video_id = 3, watch_ratio = 3\<rparr>]"

definition three_users :: ctx where
  "three_users =
     \<lparr>interactions = three_users_rows, categories = three_videos,
      user_item_matrix = pivot_table three_users_rows,
      user_similarity = [[1, 3/5, 4/5], [3/5, 1, 12/25], [4/5, 12/25, 1]],
      content_based_cosine_sim = [[1, 1/2, 1/4], [1/2, 1, 1/8], [1/4, 1/8, 1]]\<rparr>"

text \<open>
  One user who watched video 1 twenty times (watch ratios 2 to 21) and video 2 once (watch
  ratio 1); the two videos have content similarity \<open>1/2\<close>.
\<close>

definition rewatch_rows :: "interaction list" where
  "rewatch_rows =
     map (\<lambda>k. \<lparr>user_id = 0, video_id = 1, watch_ratio = real k\<rparr>) [2..<22]
     @ [\<lparr>user_id = 0, video_id = 2, watch_ratio = 1\<rparr>]"

definition rewatch :: ctx where
  "rewatch =
     \<lparr>interactions = rewatch_rows,
      categories = [\<lparr>cat_label = 0, cat_video_id = 1, feat = [1]\<rparr>,
                    \<lparr>cat_label = 1, cat_video_id = 2, feat = [1, 2]\<rparr>],
      user_item_matrix = pivot_table rewatch_rows,
      user_similarity = [[1]],
      content_based_cosine_sim = [[1, 1/2], [1/2, 1]]\<rparr>"

text \<open>
  Two users. User 0 watched video 1; user 1 opened video 2 and watched none of it (watch ratio
  0). In \<open>zero_ratio\<close> the two videos share no feature (content similarity 0), in
  \<open>zero_ratio_similar\<close> their content similarity is \<open>1/2\<close>.
\<close>

definition zero_ratio_rows :: "interaction list" where
  "zero_ratio_rows =
     [\<lparr>user_id = 0, video_id = 1, watch_ratio = 1\<rparr>,
      \<lparr>user_id = 1, video_id = 2, watch_ratio = 0\<rparr>]"

definition two_videos :: "category list" where
  "two_videos =
     [\<lparr>cat_label = 0, cat_video_id = 1, feat = [1]\<rparr>,
      \<lparr>cat_label = 1, cat_video_id = 2, feat = [2]\<rparr>]"

definition zero_ratio :: ctx where
  "zero_ratio =
     \<lparr>interactions = zero_ratio_rows, categories = two_videos,
      user_item_matrix = pivot_table zero_ratio_rows,
      user_similarity = [[1, 0], [0, 0]],
      content_based_cosine_sim = [[1, 0], [0, 1]]\<rparr>"


text \<open>
  Two users with nothing in common: user 0 watched video 1, user 1 watched video 2. The
  catalogue holds a third video that nobody has watched.
\<close>

definition disjoint_rows :: "interaction list" where
  "disjoint_rows =
     [\<lparr>user_id = 0, video_id = 1, watch_ratio = 1\<rparr>,
      \<lparr>user_id = 1, video_id = 2, watch_ratio = 2\<rparr>]"

definition disjoint_users :: ctx where
  "disjoint_users =
     \<lparr>interactions = disjoint_rows, categories = three_videos,
      user_item_matrix = pivot_table disjoint_rows,
      user_similarity = [[1, 0], [0, 1]],
      content_based_cosine_sim = [[1, 1/2, 1/4], [1/2, 1, 1/8], [1/4, 1/8, 1]]\<rparr>"

text \<open>
  A categories file whose first row (label 0) has no features and is removed by
  \<^verbatim>\<open>dropna\<close>: the only row left is video 20 with label 1, and the similarity matrix has
  one row.
\<close>

definition dropped_row :: ctx where
  "dropped_row =
     \<lparr>interactions = [],
      categories = [\<lparr>cat_label = 1, cat_video_id = 20, feat = [1]\<rparr>],
      user_item_matrix = pivot_table [],
      user_similarity = [],
      content_based_cosine_sim = [[1]]\<rparr>"



section \<open>Supporting lemmas\<close>

subsection \<open>Series and their labels\<close>

lemma set_union_index: "set (union_index xs ys) = set xs \<union> set ys"
  by (auto simp: union_index_def)



lemma aligned_absent: "k \<notin> fst ` set s \<Longrightarrow> aligned s k = NaN"
  using map_of_eq_None_iff [of s k] by (simp add: aligned_def)

lemma aligned_nonneg:
  "nonneg s \<Longrightarrow> k \<in> fst ` set s \<Longrightarrow> \<exists>x. aligned s k = Fin x \<and> 0 \<le> x"
proof -
  assume a: "nonneg s" and k: "k \<in> fst ` set s"
  then obtain v where v: "map_of s k = Some v"
    by (metis domD dom_map_of_conv_image_fst)
  then have "(k, v) \<in> set s" by (rule map_of_SomeD)
  with a obtain x where "v = Fin x" "0 \<le> x" by (auto simp: nonneg_def)
  with v show ?thesis by (simp add: aligned_def)
qed

lemma nonneg_series_add:
  assumes "nonneg a" and "nonneg b"
  shows "nonneg (series_add a b)"
  unfolding nonneg_def
proof
  fix p assume "p \<in> set (series_add a b)"
  then obtain k where k: "k \<in> fst ` set a \<union> fst ` set b"
    and p: "p = (k, fill_add (aligned a k) (aligned b k))"
    by (auto simp: series_add_def set_union_index)
  have fa: "(\<exists>x. aligned a k = Fin x \<and> 0 \<le> x) \<or> aligned a k = NaN"
    using aligned_nonneg [OF assms(1)] aligned_absent by blast
  have fb: "(\<exists>x. aligned b k = Fin x \<and> 0 \<le> x) \<or> aligned b k = NaN"
    using aligned_nonneg [OF assms(2)] aligned_absent by blast
  have "\<not> (aligned a k = NaN \<and> aligned b k = NaN)"
  proof (cases "k \<in> fst ` set a")
    case True
    with aligned_nonneg [OF assms(1)] show ?thesis by fastforce
  next
    case False
    with k have "k \<in> fst ` set b" by simp
    with aligned_nonneg [OF assms(2)] show ?thesis by fastforce
  qed
  with fa fb show "\<exists>x. snd p = Fin x \<and> 0 \<le> x"
    by (auto simp: p fill_add_def)
qed

lemma iloc_length: "iloc col is = Inr vs \<Longrightarrow> length vs = length is"
  by (induction "is" arbitrary: vs) (auto split: if_splits sum.splits)

lemma np_row_mem: "np_row a i = Inr r \<Longrightarrow> r \<in> set a"
  by (auto simp: np_row_def Let_def split: if_splits)

lemma sim_scores_subset: "snd ` set (sim_scores row r) \<subseteq> set row"
proof -
  have "set (sim_scores row r) \<subseteq> set (sort_key (\<lambda>x. - snd x) (enumerate 0 row))"
    unfolding sim_scores_def by (meson set_drop_subset set_take_subset subset_trans)
  then have "set (sim_scores row r) \<subseteq> set (enumerate 0 row)"
    by (simp only: set_sort)
  then have "snd ` set (sim_scores row r) \<subseteq> snd ` set (enumerate 0 row)"
    by (rule image_mono)
  also have "snd ` set (enumerate 0 row) = set row"
    by (metis list.set_map map_snd_enumerate)
  finally show ?thesis .
qed

lemma similar_videos_values:
  assumes "recommend_similar_videos c vid r = Inr sv"
  shows "\<exists>row\<in>set (content_based_cosine_sim c). map snd sv = map snd (sim_scores row r)"
proof -
  from assms obtain row video_ids where row: "row \<in> set (content_based_cosine_sim c)"
    and il: "iloc (map cat_video_id (categories c)) (map fst (sim_scores row r)) = Inr video_ids"
    and sv: "sv = zip video_ids (map snd (sim_scores row r))"
    by (auto simp: recommend_similar_videos_def split: list.splits sum.splits dest: np_row_mem)
  from iloc_length [OF il] have "length video_ids = length (map snd (sim_scores row r))" by simp
  then have "map snd sv = map snd (sim_scores row r)"
    unfolding sv by (rule map_snd_zip)
  with row show ?thesis by blast
qed

lemma sorted_sim_scores: "sorted_wrt (\<lambda>p q. snd q \<le> snd p) (sim_scores row r)"
proof -
  have "sorted (map (\<lambda>x. - snd x) (sort_key (\<lambda>x. - snd x) (enumerate 0 row)))"
    by (rule sorted_sort_key)
  then have "sorted_wrt (\<lambda>p q. snd q \<le> snd p) (sort_key (\<lambda>x. - snd x) (enumerate 0 row))"
    by (simp add: sorted_map)
  then show ?thesis
    unfolding sim_scores_def by (intro sorted_wrt_take sorted_wrt_drop)
qed

lemma recommend_similar_videos_result:
  assumes "recommend_similar_videos c vid r = Inr sv"
  shows "length sv \<le> r \<and> sorted_wrt (\<lambda>x y. y \<le> x) (map snd sv)"
proof -
  from similar_videos_values [OF assms] obtain row
    where m: "map snd sv = map snd (sim_scores row r)" by blast
  then have "length sv = length (sim_scores row r)"
    by (metis length_map)
  then have "length sv \<le> r" by (simp add: sim_scores_def)
  moreover have "sorted_wrt (\<lambda>x y. y \<le> x) (map snd (sim_scores row r))"
    using sorted_sim_scores [of row r] by (simp add: sorted_wrt_map)
  ultimately show ?thesis using m by simp
qed

lemma nonneg_content_loop:
  assumes "\<forall>row\<in>set (content_based_cosine_sim c). \<forall>x\<in>set row. 0 \<le> x"
  shows "content_loop c vs acc = Inr s \<Longrightarrow> nonneg acc \<Longrightarrow> nonneg s"
proof (induction vs arbitrary: acc)
  case Nil
  then show ?case by simp
next
  case (Cons v vs)
  from Cons.prems(1) obtain sv where sv: "recommend_similar_videos c v 10 = Inr sv"
    and rest: "content_loop c vs (series_add acc (map (\<lambda>p. (fst p, Fin (snd p))) sv)) = Inr s"
    by (auto split: sum.splits)
  from similar_videos_values [OF sv] obtain row
    where row: "row \<in> set (content_based_cosine_sim c)"
      and m: "map snd sv = map snd (sim_scores row 10)" by blast
  have "snd p \<in> set row" if "p \<in> set sv" for p
  proof -
    from that have "snd p \<in> set (map snd sv)" by simp
    then have "snd p \<in> snd ` set (sim_scores row 10)" by (simp add: m)
    with sim_scores_subset show ?thesis by blast
  qed
  with row assms have "\<forall>p\<in>set sv. 0 \<le> snd p" by blast
  then have "nonneg (map (\<lambda>p. (fst p, Fin (snd p))) sv)"
    by (auto simp: nonneg_def)
  with Cons.prems(2) have "nonneg (series_add acc (map (\<lambda>p. (fst p, Fin (snd p))) sv))"
    by (rule nonneg_series_add)
  with rest show ?case by (rule Cons.IH)
qed

lemma nonneg_all_fin: "nonneg s \<Longrightarrow> all_fin s"
  by (auto simp: nonneg_def all_fin_def)



subsection \<open>The two components and their blend\<close>

lemma collab_subset:
  assumes "recommend_videos_by_users c u nb n = Inr s"
  shows "\<exists>ls. set s \<subseteq> set (mean_axis0 (user_item_matrix c) ls)"
proof -
  from assms obtain ls P where
    "s = take n (filter P (sort_values_desc (mean_axis0 (user_item_matrix c) ls)))"
    by (auto simp: recommend_videos_by_users_def split: sum.splits)
  then have "set s \<subseteq> set (mean_axis0 (user_item_matrix c) ls)"
    by (auto simp: sort_values_desc_def dest: in_set_takeD)
  then show ?thesis ..
qed

lemma series_max_all_nan:
  "\<forall>p\<in>set s. snd p = NaN \<Longrightarrow> series_max s = NaN"
proof -
  assume "\<forall>p\<in>set s. snd p = NaN"
  then have "filter (\<lambda>x. x \<noteq> NaN) (map snd s) = []"
    by (auto simp: filter_empty_conv)
  then show ?thesis by (simp add: series_max_def)
qed


lemma collab_nonneg:
  assumes "recommend_videos_by_users c u nb n = Inr s" and "series_max s = Fin m"
    and "\<forall>l v. 0 \<le> f_at (user_item_matrix c) l v"
  shows "nonneg s"
proof -
  from collab_subset [OF assms(1)] obtain ls
    where sub: "set s \<subseteq> set (mean_axis0 (user_item_matrix c) ls)" ..
  show ?thesis
  proof (cases "ls = []")
    case True
    with sub have "\<forall>p\<in>set s. snd p = NaN" by (auto simp: mean_axis0_def)
    with assms(2) show ?thesis by (simp add: series_max_all_nan)
  next
    case False
    have "0 \<le> sum_list (map (\<lambda>l. f_at (user_item_matrix c) l v) ls) / real (length ls)" for v
    proof -
      have "0 \<le> sum_list (map (\<lambda>l. f_at (user_item_matrix c) l v) ls)"
        using assms(3) by (intro sum_list_nonneg) auto
      then show ?thesis by simp
    qed
    with False sub show ?thesis by (auto simp: mean_axis0_def nonneg_def)
  qed
qed

lemma fold_fmax_bound:
  "\<forall>y\<in>set (x # xs). \<exists>r. y = Fin r \<Longrightarrow> fold fmax xs x = Fin m
     \<Longrightarrow> \<forall>y\<in>set (x # xs). \<exists>r. y = Fin r \<and> r \<le> m"
proof (induction xs arbitrary: x)
  case Nil
  then show ?case by auto
next
  case (Cons z zs)
  from Cons.prems(1) obtain a b where x: "x = Fin a" and z: "z = Fin b" by auto
  have fm: "fmax z x = Fin (max a b)"
    by (auto simp: fmax_def x z)
  from Cons.prems(1) have "\<forall>y\<in>set (fmax z x # zs). \<exists>r. y = Fin r"
    by (simp add: fm)
  moreover from Cons.prems(2) have "fold fmax zs (fmax z x) = Fin m" by simp
  ultimately have ih: "\<forall>y\<in>set (fmax z x # zs). \<exists>r. y = Fin r \<and> r \<le> m"
    by (rule Cons.IH)
  then have "max a b \<le> m" by (simp add: fm)
  with ih show ?case by (auto simp: x z)
qed

lemma series_max_bound:
  assumes "all_fin s" and "series_max s = Fin m" and "(k, Fin x) \<in> set s"
  shows "x \<le> m"
proof -
  have nn: "filter (\<lambda>x. x \<noteq> NaN) (map snd s) = map snd s"
    using assms(1) by (auto simp: all_fin_def filter_id_conv)
  from assms(3) obtain y ys where ys: "map snd s = y # ys" by (cases s) auto
  with assms(2) nn have f: "fold fmax ys y = Fin m" by (simp add: series_max_def)
  have "\<forall>z\<in>set (y # ys). \<exists>r. z = Fin r"
    using assms(1) ys by (metis all_fin_def imageE list.set_map)
  from fold_fmax_bound [OF this f] have "\<forall>z\<in>set (map snd s). \<exists>r. z = Fin r \<and> r \<le> m"
    by (simp only: ys)
  moreover from assms(3) have "Fin x \<in> set (map snd s)" by force
  ultimately show ?thesis by auto
qed

lemma part_absent: "k \<notin> fst ` set s \<Longrightarrow> part s m k = 0"
  using map_of_eq_None_iff [of s k] by (simp add: part_def)

lemma part_unit:
  assumes "nonneg s" and "s \<noteq> [] \<longrightarrow> series_max s = Fin m \<and> m \<noteq> 0"
  shows "0 \<le> part s m k \<and> part s m k \<le> 1"
proof (cases "map_of s k")
  case None
  then show ?thesis by (simp add: part_def)
next
  case (Some v)
  then have mem: "(k, v) \<in> set s" by (rule map_of_SomeD)
  with assms(1) obtain x where x: "v = Fin x" "0 \<le> x" by (auto simp: nonneg_def)
  from mem assms(2) have m: "series_max s = Fin m" "m \<noteq> 0" by auto
  from series_max_bound [OF nonneg_all_fin [OF assms(1)] m(1)] mem x have "x \<le> m" by simp
  with x m have "0 < m" by simp
  with \<open>x \<le> m\<close> x Some show ?thesis by (simp add: part_def)
qed

lemma aligned_normalized:
  assumes "all_fin s" and "s \<noteq> [] \<longrightarrow> series_max s = Fin m \<and> m \<noteq> 0"
  shows "aligned (series_mul (normalize_scores s) w) k =
           (if k \<in> fst ` set s then Fin (part s m k * w) else NaN)"
proof (cases "k \<in> fst ` set s")
  case False
  then have "k \<notin> fst ` set (series_mul (normalize_scores s) w)"
    by (auto simp: series_mul_def normalize_scores_def image_image)
  with False show ?thesis by (simp add: aligned_absent)
next
  case True
  then have ne: "s \<noteq> []" by auto
  with assms(2) have m: "series_max s = Fin m" "m \<noteq> 0" by auto
  from True obtain v where v: "map_of s k = Some v"
    by (metis domD dom_map_of_conv_image_fst)
  then have "(k, v) \<in> set s" by (rule map_of_SomeD)
  with assms(1) obtain x where x: "v = Fin x" by (auto simp: all_fin_def)
  have "series_mul (normalize_scores s) w = map (\<lambda>(k, y). (k, fmul (fdiv y (Fin m)) w)) s"
    using ne m by (simp add: series_mul_def normalize_scores_def case_prod_beta)
  then have "map_of (series_mul (normalize_scores s) w) k = Some (fmul (fdiv v (Fin m)) w)"
    using v by (simp add: map_of_map)
  with True v x m show ?thesis
    by (simp add: aligned_def part_def)
qed

lemma combined_scores_value:
  assumes "all_fin content" and "all_fin collab"
    and "content \<noteq> [] \<longrightarrow> series_max content = Fin mc \<and> mc \<noteq> 0"
    and "collab \<noteq> [] \<longrightarrow> series_max collab = Fin md \<and> md \<noteq> 0"
    and "(k, x) \<in> set (combined_scores content collab w)"
  shows "x = Fin (w * part content mc k + (1 - w) * part collab md k)"
proof -
  let ?a = "series_mul (normalize_scores content) w"
  let ?b = "series_mul (normalize_scores collab) (1 - w)"
  from assms(5) have x: "x = fill_add (aligned ?a k) (aligned ?b k)"
    and k: "k \<in> fst ` set ?a \<union> fst ` set ?b"
    by (auto simp: combined_scores_def series_add_def set_union_index)
  have la: "fst ` set ?a = fst ` set content" and lb: "fst ` set ?b = fst ` set collab"
    by (auto simp: series_mul_def normalize_scores_def image_image)
  note A = aligned_normalized [OF assms(1) assms(3), of w k]
  note B = aligned_normalized [OF assms(2) assms(4), of "1 - w" k]
  show ?thesis
    using k unfolding la lb x A B
    by (auto simp: fill_add_def part_absent mult.commute)
qed


lemma convex_unit:
  fixes a b w :: real
  assumes "0 \<le> w" "w \<le> 1" "0 \<le> a" "a \<le> 1" "0 \<le> b" "b \<le> 1"
  shows "0 \<le> w * a + (1 - w) * b \<and> w * a + (1 - w) * b \<le> 1"
proof
  show "0 \<le> w * a + (1 - w) * b" using assms by simp
  have "w * a \<le> w * 1" using assms by (intro mult_left_mono) auto
  moreover have "(1 - w) * b \<le> (1 - w) * 1" using assms by (intro mult_left_mono) auto
  ultimately show "w * a + (1 - w) * b \<le> 1" by simp
qed

lemma scores_in_unit_interval:
  assumes "recommend_videos_by_users c u 10 50 = Inr collab"
    and "content_loop c (user_history c u) [] = Inr content"
    and "content \<noteq> [] \<longrightarrow> series_max content = Fin mc \<and> mc \<noteq> 0"
    and "collab \<noteq> [] \<longrightarrow> series_max collab = Fin md \<and> md \<noteq> 0"
    and "0 \<le> w" and "w \<le> 1"
    and "\<forall>l v. 0 \<le> f_at (user_item_matrix c) l v"
    and "\<forall>row\<in>set (content_based_cosine_sim c). \<forall>x\<in>set row. 0 \<le> x"
    and "recommmend_videos_for_user c u w n = Inr res"
    and "(k, x) \<in> set res"
  shows "\<exists>r. x = Fin r \<and> 0 \<le> r \<and> r \<le> 1"
proof -
  have nc: "nonneg content"
    using nonneg_content_loop [OF assms(8) assms(2)] by (simp add: nonneg_def)
  have nd: "nonneg collab"
  proof (cases "collab = []")
    case True
    then show ?thesis by (simp add: nonneg_def)
  next
    case False
    with assms(4) have "series_max collab = Fin md" by simp
    with assms(1) show ?thesis using assms(7) by (rule collab_nonneg)
  qed
  from assms(9) have "res = take n (sort_values_desc (drop_labels (user_history c u)
      (combined_scores content collab w)))"
    by (simp add: recommmend_videos_for_user_def assms(1,2))
  with assms(10) have "(k, x) \<in> set (combined_scores content collab w)"
    by (auto simp: sort_values_desc_def drop_labels_def dest: in_set_takeD)
  from combined_scores_value [OF nonneg_all_fin [OF nc] nonneg_all_fin [OF nd] assms(3,4) this]
  have "x = Fin (w * part content mc k + (1 - w) * part collab md k)" .
  moreover have "0 \<le> w * part content mc k + (1 - w) * part collab md k
      \<and> w * part content mc k + (1 - w) * part collab md k \<le> 1"
    using assms(5,6) part_unit [OF nc assms(3), of k] part_unit [OF nd assms(4), of k]
    by (intro convex_unit) auto
  ultimately show ?thesis by blast
qed







subsection \<open>Similarity matrices\<close>

lemma dot_commute: "dot x y = dot y x"
proof -
  have "map2 (*) x y = map2 (*) y x"
  proof (induction x arbitrary: y)
    case Nil
    then show ?case by simp
  next
    case (Cons a x)
    then show ?case by (cases y) (simp_all add: mult.commute)
  qed
  then show ?thesis by (simp add: dot_def)
qed

lemma linear_kernel_nth:
  "a < length X \<Longrightarrow> b < length Y \<Longrightarrow> linear_kernel X Y ! a ! b = dot (X ! a) (Y ! b)"
  by (simp add: linear_kernel_def)

text \<open>
  The user similarities of the example tables are the ones that scikit-learn computes from
  their pivot tables.
\<close>

lemma sqrt_25: "sqrt 25 = 5"
  by (simp add: real_sqrt_unique)

lemma three_users_values:
  "frame_values (pivot_table three_users_rows) = [[1, 0, 0], [3, 4, 0], [4, 0, 3]]"
  by (simp add: frame_values_def pivot_table_def three_users_rows_def cell_def)

lemma l2_normalize_100: "l2_normalize [1, 0, 0] = [1, 0, 0]"
  by (simp add: l2_normalize_def dot_def)

lemma l2_normalize_340: "l2_normalize [3, 4, 0] = [3/5, 4/5, 0]"
  by (simp add: l2_normalize_def dot_def sqrt_25)

lemma l2_normalize_403: "l2_normalize [4, 0, 3] = [4/5, 0, 3/5]"
  by (simp add: l2_normalize_def dot_def sqrt_25)

lemma three_users_user_similarity:
  "cosine_similarity (frame_values (pivot_table three_users_rows)) = user_similarity three_users"
  unfolding three_users_values
  by (simp add: cosine_similarity_def l2_normalize_100 l2_normalize_340 l2_normalize_403
      linear_kernel_def dot_def three_users_def)

lemma rewatch_values: "frame_values (pivot_table rewatch_rows) = [[21, 1]]"
  by code_simp

lemma l2_normalize_21_1: "l2_normalize [21, 1] = [21 / sqrt 442, 1 / sqrt 442]"
  by (simp add: l2_normalize_def dot_def Let_def)

lemma rewatch_user_similarity:
  "cosine_similarity (frame_values (pivot_table rewatch_rows)) = user_similarity rewatch"
  unfolding rewatch_values
  by (simp add: cosine_similarity_def l2_normalize_21_1 linear_kernel_def dot_def rewatch_def
      add_divide_distrib [symmetric])

lemma zero_ratio_user_similarity:
  "cosine_similarity (frame_values (pivot_table zero_ratio_rows)) = user_similarity zero_ratio"
  by (simp add: cosine_similarity_def frame_values_def pivot_table_def zero_ratio_rows_def
      cell_def zero_ratio_def linear_kernel_def l2_normalize_def dot_def Let_def)

lemma disjoint_user_similarity:
  "cosine_similarity (frame_values (pivot_table disjoint_rows)) = user_similarity disjoint_users"
  by (simp add: cosine_similarity_def frame_values_def pivot_table_def disjoint_rows_def
      cell_def disjoint_users_def linear_kernel_def l2_normalize_def dot_def Let_def)

subsection \<open>What the scorer does guarantee\<close>

text \<open>
  The videos of the 20 most-watched rows of the user are never recommended, and for
  \<open>nb_top_similar \<ge> 1\<close> at most \<open>nb_top_similar - 1\<close> rows of the similarity matrix are
  selected.
\<close>

lemma favourites_not_recommended:
  assumes "recommmend_videos_for_user c u w n = Inr res"
  shows "fst ` set res \<inter> set (user_history c u) = {}"
proof -
  from assms obtain s where
    "res = take n (sort_values_desc (drop_labels (user_history c u) s))"
    by (auto simp: recommmend_videos_for_user_def split: sum.splits)
  then have "set res \<subseteq> set (drop_labels (user_history c u) s)"
    by (auto simp: sort_values_desc_def dest: in_set_takeD)
  then show ?thesis by (auto simp: drop_labels_def)
qed

lemma similar_users_count:
  assumes "similar_users c u nb = Inr su" and "0 < nb"
  shows "length su \<le> nb - 1"
  using assms by (auto simp: similar_users_def slice_back_def split: sum.splits)

section \<open>Properties\<close>

text \<open>
  C1. For every user \<open>u\<close> present in the indices and every content weight \<open>w\<close> in \<open>[0, 1]\<close>,
  the list returned by \<open>recommmend_videos_for_user u w\<close> contains no item with which \<open>u\<close> has
  a recorded interaction.

  The notebook breaks this. Only the videos of the user's 20 most-watched rows are dropped from
  the blend, while the content component may bring back any other video of the history. In
  \<open>rewatch\<close> the 20 most-watched rows of user 0 are all of video 1, so video 2, which user 0
  has watched, is recommended.
\<close>

theorem watched_video_recommended:
  "recommmend_videos_for_user rewatch 0 (3/10) 10 = Inr [(2, Fin (3/10))]
   \<and> 2 \<in> set (history_of rewatch 0)
   \<and> user_history rewatch 0 = replicate 20 1"
  by (intro conjI; code_simp)

text \<open>
  C2. For every user \<open>u\<close> present in the index and every \<open>N\<close>, the collaborative component
  selects exactly the \<open>N\<close> most similar users other than \<open>u\<close> and averages their engagement
  scores per item.

  The notebook breaks this. The slice \<^verbatim>\<open>[:-nb_top_similar:-1]\<close> keeps \<open>N - 1\<close> positions,
  and the most similar one is \<open>u\<close> itself. In \<open>three_users\<close> with \<open>N = 2\<close> the only user
  selected for user 0 is user 0, so every unwatched video scores 0, where the average over users
  2 and 1 would be 2 for video 2 and \<open>3/2\<close> for video 3; with \<open>N = 10\<close> user 0 is averaged
  together with the two others.
\<close>

theorem similar_users_off_by_one:
  "similar_users three_users 0 2 = Inr [0]
   \<and> recommend_videos_by_users three_users 0 2 10 = Inr [(2, Fin 0), (3, Fin 0)]
   \<and> similar_users three_users 0 10 = Inr [0, 2, 1]"
  by (intro conjI; code_simp)







text \<open>
  C5. For every user id that is not in the index of the users, the collaborative scorer and
  the hybrid scorer fail with a lookup error (IndexError from the similarity matrix or KeyError
  from the pivot table) and return no result.
\<close>

theorem unknown_user_not_found:
  assumes "u \<notin> set (f_index (user_item_matrix c))"
  shows "recommend_videos_by_users c u nb n \<in> {Inl IndexError, Inl KeyError}
       \<and> recommmend_videos_for_user c u w n \<in> {Inl IndexError, Inl KeyError}"
proof -
  have h: "recommend_videos_by_users c u k r \<in> {Inl IndexError, Inl KeyError}" for k r
    using assms
    by (auto simp: recommend_videos_by_users_def similar_users_def np_row_def loc_rows_def
        loc_row_def Let_def split: sum.splits if_splits)
  have "recommmend_videos_for_user c u w n \<in> {Inl IndexError, Inl KeyError}"
    using h [of 10 50] by (auto simp: recommmend_videos_for_user_def split: sum.splits)
  with h [of nb n] show ?thesis ..
qed

theorem unknown_user_not_found_witness:
  "7 \<notin> set (f_index (user_item_matrix three_users))
   \<and> recommend_videos_by_users three_users 7 10 10 \<in> {Inl IndexError, Inl KeyError}
   \<and> recommmend_videos_for_user three_users 7 (3/10) 10 \<in> {Inl IndexError, Inl KeyError}"
proof -
  have a: "7 \<notin> set (f_index (user_item_matrix three_users))"
    by code_simp
  show ?thesis
    by (rule conjI [OF a unknown_user_not_found [OF a, where nb = 10 and n = 10 and w = "3/10"]])
qed

text \<open>
  C6. For every user, weight and result lengths \<open>n \<le> m\<close>, the list returned for \<open>n\<close> is a
  prefix of the list returned for \<open>m\<close> (its first \<open>n\<close> entries); when the call fails, it
  fails in the same way for both lengths.
\<close>

theorem result_length_prefix:
  assumes "n \<le> m"
  shows "(\<exists>e. recommmend_videos_for_user c u w n = Inl e
             \<and> recommmend_videos_for_user c u w m = Inl e)
       \<or> (\<exists>a b. recommmend_videos_for_user c u w n = Inr a
             \<and> recommmend_videos_for_user c u w m = Inr b
             \<and> prefix a b \<and> a = take n b)"
proof -
  have "prefix (take n xs) (take m xs)" for xs :: series
    using assms by (metis min.absorb1 take_is_prefix take_take)
  moreover have "take n (take m xs) = take n xs" for xs :: series
    using assms by (simp add: min.absorb1)
  ultimately show ?thesis
    by (auto simp: recommmend_videos_for_user_def split: sum.splits)
qed

theorem result_length_prefix_witness:
  "(1::nat) \<le> 2
   \<and> recommmend_videos_for_user three_users 0 (3/10) 1 = Inr [(2, Fin 1)]
   \<and> recommmend_videos_for_user three_users 0 (3/10) 2 = Inr [(2, Fin 1), (3, Fin (27/40))]
   \<and> prefix [(2::int, Fin 1)] [(2, Fin 1), (3, Fin (27/40))]"
proof -
  have a: "recommmend_videos_for_user three_users 0 (3/10) 1 = Inr [(2, Fin 1)]"
    by code_simp
  have b: "recommmend_videos_for_user three_users 0 (3/10) 2 = Inr [(2, Fin 1), (3, Fin (27/40))]"
    by code_simp
  have le: "(1::nat) \<le> 2" by simp
  from result_length_prefix [OF le, of three_users 0 "3/10"]
  have "prefix [(2::int, Fin 1)] [(2, Fin 1), (3, Fin (27/40))]"
    unfolding a b by simp
  with a b le show ?thesis by simp
qed

text \<open>
  C7. For all precision \<open>p \<ge> 0\<close> and recall \<open>r \<ge> 0\<close>, \<open>f1_score_at_k p r\<close> returns 0 when
  \<open>p + r = 0\<close> and the harmonic mean \<open>2 * p * r / (p + r)\<close> otherwise, never a division
  error; in particular \<open>f1_score_at_k 0 0.5\<close> returns 0.
\<close>

theorem f1_score_at_k_harmonic:
  assumes "0 \<le> p" and "0 \<le> r"
  shows "f1_score_at_k p r = Inr (if p + r = 0 then 0 else 2 * p * r / (p + r))
         \<and> f1_score_at_k 0 (1 / 2) = Inr 0"
  by (simp add: f1_score_at_k_def py_truediv_def)

theorem f1_score_at_k_harmonic_witness:
  "(0::real) \<le> 3 / 5 \<and> (0::real) \<le> 1 / 2
   \<and> f1_score_at_k (3 / 5) (1 / 2) = Inr (6 / 11)
   \<and> f1_score_at_k 0 (1 / 2) = Inr 0"
  using f1_score_at_k_harmonic [of "3 / 5" "1 / 2"] by simp

text \<open>
  C8. The similarity matrices are symmetric: the entry for \<open>(a, b)\<close> equals the entry for
  \<open>(b, a)\<close>, in the user-user matrix \<open>cosine_similarity X\<close> and in the item-item matrix
  \<open>linear_kernel T T\<close>, for every input matrix (the numbers taken as reals).
\<close>

theorem similarity_symmetric:
  "(\<forall>a<length X. \<forall>b<length X. cosine_similarity X ! a ! b = cosine_similarity X ! b ! a)
   \<and> (\<forall>a<length T. \<forall>b<length T. linear_kernel T T ! a ! b = linear_kernel T T ! b ! a)"
  by (simp add: cosine_similarity_def Let_def linear_kernel_nth dot_commute)

theorem similarity_symmetric_witness:
  "(0::nat) < length [[1, 0, 0], [3, 4, 0], [4, 0, 3::real]]
   \<and> (1::nat) < length [[1, 0, 0], [3, 4, 0], [4, 0, 3::real]]
   \<and> cosine_similarity [[1, 0, 0], [3, 4, 0], [4, 0, 3]] ! 0 ! 1
     = cosine_similarity [[1, 0, 0], [3, 4, 0], [4, 0, 3]] ! 1 ! 0
   \<and> linear_kernel [[1, 0], [3/5, 4/5]] [[1, 0], [3/5, 4/5]] ! 0 ! 1
     = linear_kernel [[1, 0], [3/5, 4/5]] [[1, 0], [3/5, 4/5]] ! 1 ! 0"
  using similarity_symmetric [of "[[1, 0, 0], [3, 4, 0], [4, 0, 3]]" "[[1, 0], [3/5, 4/5]]"]
  by simp

text \<open>
  C9. For every video id present in the categories table and every result length,
  \<open>recommend_similar_videos\<close> returns at most that many items, skips the first entry of its
  sorted candidate list and returns the following entries in descending order of similarity.

  The notebook breaks this when the cleaning cell has removed a row of the categories file: the
  function reads the index label of the video's row and uses it as a position of the similarity
  matrix, which has one row per remaining row of the table. In \<open>dropped_row\<close> video 20 is
  present in the table and the call raises IndexError. (Whenever the call returns, its result
  has the three properties.)
\<close>

theorem recommend_similar_videos_dropped_row:
  "map cat_video_id (categories dropped_row) = [20]
   \<and> recommend_similar_videos dropped_row 20 20 = Inl IndexError"
  by (intro conjI; code_simp)

text \<open>
  C10. For every user present in the indices and every content weight in \<open>[0, 1]\<close>, with all
  engagement ratios and similarity scores non-negative, every returned score lies in
  \<open>[0, 1]\<close>.

  The notebook breaks this when a non-empty component has the maximum 0: the normalisation
  divides 0 by 0. In \<open>zero_ratio\<close> both components of user 0 are \<open>{2: 0}\<close> and the returned
  score of video 2 is \<open>NaN\<close>. (With the maxima other than 0 the scores are in \<open>[0, 1]\<close>.)
\<close>

theorem score_nan_on_zero_maximum:
  "recommend_videos_by_users zero_ratio 0 10 50 = Inr [(2, Fin 0)]
   \<and> content_loop zero_ratio (user_history zero_ratio 0) [] = Inr [(2, Fin 0)]
   \<and> recommmend_videos_for_user zero_ratio 0 (3/10) 10 = Inr [(2, NaN)]"
  by (intro conjI; code_simp)

end
